theory Spec2Isabelle
  imports Main
begin

section \<open>The Harris corner detector of tutorial lesson 21 (AutoScheduled::generate)\<close>

text \<open>
  The generator computes on \<open>float\<close>. The algebraic claims about it do not depend on how
  floating-point arithmetic rounds, so the arithmetic is a parameter: a record of the
  operations the source uses. \<open>flit m e\<close> is the decimal literal \<open>m * 10^e\<close> written with
  suffix \<open>f\<close>, \<open>fint\<close> is the conversion of a C++ \<open>int\<close> operand to \<open>float\<close>.
\<close>

record 'a float_ops =
  fadd :: "'a \<Rightarrow> 'a \<Rightarrow> 'a"
  fsub :: "'a \<Rightarrow> 'a \<Rightarrow> 'a"
  fmul :: "'a \<Rightarrow> 'a \<Rightarrow> 'a"
  fdiv :: "'a \<Rightarrow> 'a \<Rightarrow> 'a"
  fneg :: "'a \<Rightarrow> 'a"
  flit :: "int \<Rightarrow> int \<Rightarrow> 'a"
  fint :: "int \<Rightarrow> 'a"

text \<open>
  A Func of two or three coordinates is a function of them. \<open>in_b\<close>, the input wrapped by
  \<open>BoundaryConditions::repeat_edge\<close>, is a parameter of every definition below.
\<close>

type_synonym 'a func2 = "int \<Rightarrow> int \<Rightarrow> 'a"
type_synonym 'a func3 = "int \<Rightarrow> int \<Rightarrow> int \<Rightarrow> 'a"

definition sum3x3 :: "'a float_ops \<Rightarrow> 'a func2 \<Rightarrow> int \<Rightarrow> int \<Rightarrow> 'a" where
  "sum3x3 ops f x y =
     fadd ops (fadd ops (fadd ops (fadd ops (fadd ops (fadd ops (fadd ops (fadd ops
       (f (x - 1) (y - 1)) (f (x - 1) y)) (f (x - 1) (y + 1)))
       (f x (y - 1))) (f x y)) (f x (y + 1)))
       (f (x + 1) (y - 1))) (f (x + 1) y)) (f (x + 1) (y + 1))"

definition gray :: "'a float_ops \<Rightarrow> 'a func3 \<Rightarrow> 'a func2" where
  "gray ops in_b x y =
     fadd ops (fadd ops (fmul ops (flit ops 299 (- 3)) (in_b x y 0))
                        (fmul ops (flit ops 587 (- 3)) (in_b x y 1)))
              (fmul ops (flit ops 114 (- 3)) (in_b x y 2))"

definition twelfth :: "'a float_ops \<Rightarrow> 'a \<Rightarrow> 'a" where
  \<comment> \<open>the C++ subexpressions \<open>(c/12)\<close>: a float divided by the int 12\<close>
  "twelfth ops c = fdiv ops c (fint ops 12)"

definition Iy :: "'a float_ops \<Rightarrow> 'a func3 \<Rightarrow> 'a func2" where
  "Iy ops in_b x y =
     fadd ops (fadd ops (fadd ops (fadd ops (fadd ops
       (fmul ops (gray ops in_b (x - 1) (y - 1)) (twelfth ops (fneg ops (flit ops 10 (- 1)))))
       (fmul ops (gray ops in_b (x - 1) (y + 1)) (twelfth ops (flit ops 10 (- 1)))))
       (fmul ops (gray ops in_b x (y - 1)) (twelfth ops (fneg ops (flit ops 20 (- 1))))))
       (fmul ops (gray ops in_b x (y + 1)) (twelfth ops (flit ops 20 (- 1)))))
       (fmul ops (gray ops in_b (x + 1) (y - 1)) (twelfth ops (fneg ops (flit ops 10 (- 1))))))
       (fmul ops (gray ops in_b (x + 1) (y + 1)) (twelfth ops (flit ops 10 (- 1))))"

definition Ix :: "'a float_ops \<Rightarrow> 'a func3 \<Rightarrow> 'a func2" where
  "Ix ops in_b x y =
     fadd ops (fadd ops (fadd ops (fadd ops (fadd ops
       (fmul ops (gray ops in_b (x - 1) (y - 1)) (twelfth ops (fneg ops (flit ops 10 (- 1)))))
       (fmul ops (gray ops in_b (x + 1) (y - 1)) (twelfth ops (flit ops 10 (- 1)))))
       (fmul ops (gray ops in_b (x - 1) y) (twelfth ops (fneg ops (flit ops 20 (- 1))))))
       (fmul ops (gray ops in_b (x + 1) y) (twelfth ops (flit ops 20 (- 1)))))
       (fmul ops (gray ops in_b (x - 1) (y + 1)) (twelfth ops (fneg ops (flit ops 10 (- 1))))))
       (fmul ops (gray ops in_b (x + 1) (y + 1)) (twelfth ops (flit ops 10 (- 1))))"

definition Ixx :: "'a float_ops \<Rightarrow> 'a func3 \<Rightarrow> 'a func2" where
  "Ixx ops in_b x y = fmul ops (Ix ops in_b x y) (Ix ops in_b x y)"

definition Iyy :: "'a float_ops \<Rightarrow> 'a func3 \<Rightarrow> 'a func2" where
  "Iyy ops in_b x y = fmul ops (Iy ops in_b x y) (Iy ops in_b x y)"

definition Ixy :: "'a float_ops \<Rightarrow> 'a func3 \<Rightarrow> 'a func2" where
  "Ixy ops in_b x y = fmul ops (Ix ops in_b x y) (Iy ops in_b x y)"

definition Sxx :: "'a float_ops \<Rightarrow> 'a func3 \<Rightarrow> 'a func2" where
  "Sxx ops in_b x y = sum3x3 ops (Ixx ops in_b) x y"

definition Syy :: "'a float_ops \<Rightarrow> 'a func3 \<Rightarrow> 'a func2" where
  "Syy ops in_b x y = sum3x3 ops (Iyy ops in_b) x y"

definition Sxy :: "'a float_ops \<Rightarrow> 'a func3 \<Rightarrow> 'a func2" where
  "Sxy ops in_b x y = sum3x3 ops (Ixy ops in_b) x y"

definition det :: "'a float_ops \<Rightarrow> 'a func3 \<Rightarrow> 'a func2" where
  "det ops in_b x y =
     fsub ops (fmul ops (Sxx ops in_b x y) (Syy ops in_b x y))
              (fmul ops (Sxy ops in_b x y) (Sxy ops in_b x y))"

definition trace :: "'a float_ops \<Rightarrow> 'a func3 \<Rightarrow> 'a func2" where
  "trace ops in_b x y = fadd ops (Sxx ops in_b x y) (Syy ops in_b x y)"

definition harris :: "'a float_ops \<Rightarrow> 'a func3 \<Rightarrow> 'a func2" where
  "harris ops in_b x y =
     fsub ops (det ops in_b x y)
              (fmul ops (fmul ops (flit ops 4 (- 2)) (trace ops in_b x y)) (trace ops in_b x y))"

definition output1 :: "'a float_ops \<Rightarrow> 'a func3 \<Rightarrow> 'a func2" where
  "output1 ops in_b x y = harris ops in_b (x + 2) (y + 2)"

definition output2 :: "'a float_ops \<Rightarrow> 'a func3 \<Rightarrow> 'a \<Rightarrow> 'a func2" where
  "output2 ops in_b factor x y = fmul ops factor (harris ops in_b (x + 2) (y + 2))"


section \<open>Generator state: estimates and scheduling directives\<close>

text \<open>
  The two \<open>schedule()\<close> methods act on the generator's members only through calls of the
  Halide API: \<open>estimate\<close>, \<open>set_estimate\<close>, \<open>set_bounds_estimate\<close>, the scheduling
  directives and \<open>auto_schedule_outputs\<close>. The state they act on is the pipeline: every
  Func by name with its argument list, the estimates recorded on it and the directives
  applied to it, in call order; the buffer inputs with one optional bounds estimate per
  dimension; the scalar inputs with an optional point estimate.
\<close>

type_synonym var = string

datatype directive =
    Split var var var int
  | Parallel var
  | Vectorize var int
  | StoreAt string var
  | ComputeAt string var
  | ComputeRoot

datatype scalar_value = IntValue int | FloatValue int int

record func_state =
  func_args :: "var list"
  func_estimates :: "(var \<times> int \<times> int) list"
  func_directives :: "directive list"

record pipeline =
  funcs :: "(string \<times> func_state) list"
  buffers :: "(string \<times> (int \<times> int) option list) list"
  scalars :: "(string \<times> scalar_value option) list"
  func_inputs :: "string list"
  outputs :: "string list"

record machine_params =
  parallelism :: int
  last_level_cache_size :: int
  balance :: int

datatype estimate_item =
    ScalarEstimate string
  | BufferDimEstimate string nat
  | FuncDimEstimate string var

datatype error =
    CyclicDefinitionError string
  | MissingEstimateError estimate_item
  | PartiallyScheduledPipelineError string
  | ArgsIndexOutOfRange string nat

definition update_func :: "string \<Rightarrow> (func_state \<Rightarrow> func_state) \<Rightarrow> pipeline \<Rightarrow> pipeline" where
  "update_func f h p =
     p\<lparr>funcs := map (\<lambda>(n, s). if n = f then (n, h s) else (n, s)) (funcs p)\<rparr>"

definition args_of :: "pipeline \<Rightarrow> string \<Rightarrow> var list" where
  \<comment> \<open>\<open>f.args()\<close>\<close>
  "args_of p f = (case map_of (funcs p) f of Some s \<Rightarrow> func_args s | None \<Rightarrow> [])"

definition estimate :: "string \<Rightarrow> var \<Rightarrow> int \<Rightarrow> int \<Rightarrow> pipeline \<Rightarrow> pipeline" where
  \<comment> \<open>\<open>f.estimate(v, min, extent)\<close>\<close>
  "estimate f v mn ex =
     update_func f (\<lambda>s. s\<lparr>func_estimates := func_estimates s @ [(v, mn, ex)]\<rparr>)"

definition set_bounds_estimate :: "string \<Rightarrow> nat \<Rightarrow> int \<Rightarrow> int \<Rightarrow> pipeline \<Rightarrow> pipeline" where
  \<comment> \<open>\<open>b.dim(d).set_bounds_estimate(min, extent)\<close>\<close>
  "set_bounds_estimate b d mn ex p =
     p\<lparr>buffers := map (\<lambda>(n, ds). if n = b then (n, ds[d := Some (mn, ex)]) else (n, ds))
                        (buffers p)\<rparr>"

definition set_estimate :: "string \<Rightarrow> scalar_value \<Rightarrow> pipeline \<Rightarrow> pipeline" where
  \<comment> \<open>\<open>s.set_estimate(v)\<close>\<close>
  "set_estimate s v p =
     p\<lparr>scalars := map (\<lambda>(n, e). if n = s then (n, Some v) else (n, e)) (scalars p)\<rparr>"

definition apply_directive :: "string \<Rightarrow> directive \<Rightarrow> pipeline \<Rightarrow> pipeline" where
  "apply_directive f d =
     update_func f (\<lambda>s. s\<lparr>func_directives := func_directives s @ [d]\<rparr>)"

definition split :: "string \<Rightarrow> var \<Rightarrow> var \<Rightarrow> var \<Rightarrow> int \<Rightarrow> pipeline \<Rightarrow> pipeline" where
  "split f old outer inner factor = apply_directive f (Split old outer inner factor)"

definition parallel :: "string \<Rightarrow> var \<Rightarrow> pipeline \<Rightarrow> pipeline" where
  "parallel f v = apply_directive f (Parallel v)"

definition vectorize :: "string \<Rightarrow> var \<Rightarrow> int \<Rightarrow> pipeline \<Rightarrow> pipeline" where
  "vectorize f v factor = apply_directive f (Vectorize v factor)"

definition store_at :: "string \<Rightarrow> string \<Rightarrow> var \<Rightarrow> pipeline \<Rightarrow> pipeline" where
  "store_at f g v = apply_directive f (StoreAt g v)"

definition compute_at :: "string \<Rightarrow> string \<Rightarrow> var \<Rightarrow> pipeline \<Rightarrow> pipeline" where
  "compute_at f g v = apply_directive f (ComputeAt g v)"

definition compute_root :: "string \<Rightarrow> pipeline \<Rightarrow> pipeline" where
  "compute_root f = apply_directive f ComputeRoot"

definition new_func :: "var list \<Rightarrow> func_state" where
  "new_func as = \<lparr>func_args = as, func_estimates = [], func_directives = []\<rparr>"


section \<open>SimpleBlur::schedule\<close>

text \<open>
  The members of a freshly constructed SimpleBlur generator after \<open>generate()\<close>. The
  argument names of \<open>input\<close> are not known to the generator (the source calls this a
  wart), nor is the number of implicit arguments behind \<open>_\<close>: both are parameters.
\<close>

definition SimpleBlur_generator :: "var list \<Rightarrow> var list \<Rightarrow> pipeline" where
  "SimpleBlur_generator input_args implicit =
     \<lparr>funcs = [(''input'', new_func input_args),
               (''in'', new_func input_args),
               (''blur_x'', new_func (''x'' # ''y'' # implicit)),
               (''output'', new_func (''x'' # ''y'' # implicit))],
      buffers = [],
      scalars = [(''width'', None), (''height'', None)],
      func_inputs = [''input''],
      outputs = [''output'']\<rparr>"

definition estimate_rest :: "string \<Rightarrow> int \<Rightarrow> pipeline \<Rightarrow> pipeline" where
  \<comment> \<open>\<open>for (size_t i = 2; i < f.args().size(); ++i) f.estimate(f.args()[i], 0, C);\<close>\<close>
  "estimate_rest f c p =
     fold (\<lambda>i q. estimate f (args_of q f ! i) 0 c q) [2..<length (args_of p f)] p"

text \<open>
  \<open>auto_schedule_outputs\<close> is not part of the generator: it is a parameter, a function
  from the pipeline to an optional error and the pipeline it leaves behind. Reading
  \<open>input.args()[0]\<close> or \<open>[1]\<close> of an input with fewer than two arguments is outside the
  vector; the model stops there with \<open>ArgsIndexOutOfRange\<close>.
\<close>

definition SimpleBlur_schedule ::
  "(pipeline \<Rightarrow> error option \<times> pipeline) \<Rightarrow> bool \<Rightarrow> bool \<Rightarrow> pipeline
     \<Rightarrow> error option \<times> pipeline" where
  "SimpleBlur_schedule auto_schedule_outputs auto_schedule estimate_only g =
     (if auto_schedule \<or> estimate_only then
        (let W = 1536; H = 2560; C = 4 in
         if length (args_of g ''input'') < 2 then
           (Some (ArgsIndexOutOfRange ''input'' (length (args_of g ''input''))), g)
         else
           (let g = estimate ''input'' (args_of g ''input'' ! 0) 0 W g;
                g = estimate ''input'' (args_of g ''input'' ! 1) 0 H g;
                g = estimate_rest ''input'' C g;
                g = set_estimate ''width'' (IntValue W) g;
                g = set_estimate ''height'' (IntValue H) g;
                g = estimate ''output'' ''x'' 0 W g;
                g = estimate ''output'' ''y'' 0 H g;
                g = estimate_rest ''output'' C g
            in if auto_schedule then auto_schedule_outputs g else (None, g)))
      else
        (let g = split ''output'' ''y'' ''y'' ''yi'' 8 g;
             g = parallel ''output'' ''y'' g;
             g = vectorize ''output'' ''x'' 8 g;
             g = store_at ''blur_x'' ''output'' ''y'' g;
             g = compute_at ''blur_x'' ''output'' ''yi'' g;
             g = vectorize ''blur_x'' ''x'' 8 g
         in (None, g)))"


section \<open>AutoScheduled::schedule\<close>

text \<open>
  The members of a freshly constructed AutoScheduled generator after \<open>generate()\<close>:
  the three-dimensional buffer \<open>input\<close>, the scalar \<open>factor\<close>, the Funcs of the
  algorithm and the two outputs.
\<close>

definition AutoScheduled_generator :: pipeline where
  "AutoScheduled_generator =
     \<lparr>funcs = [(''in_b'', new_func [''_0'', ''_1'', ''_2''])] @
              map (\<lambda>n. (n, new_func [''x'', ''y'']))
                [''gray'', ''Iy'', ''Ix'', ''Ixx'', ''Iyy'', ''Ixy'', ''Sxx'', ''Syy'', ''Sxy'',
                 ''det'', ''trace'', ''harris'', ''output1'', ''output2''],
      buffers = [(''input'', [None, None, None])],
      scalars = [(''factor'', None)],
      func_inputs = [],
      outputs = [''output1'', ''output2'']\<rparr>"

definition AutoScheduled_schedule ::
  "(machine_params \<Rightarrow> pipeline \<Rightarrow> error option \<times> pipeline) \<Rightarrow> bool \<Rightarrow> pipeline
     \<Rightarrow> error option \<times> pipeline" where
  "AutoScheduled_schedule auto_schedule_outputs auto_schedule g =
     (if auto_schedule then
        (let g = set_bounds_estimate ''input'' 0 0 1024 g;
             g = set_bounds_estimate ''input'' 1 0 1024 g;
             g = set_bounds_estimate ''input'' 2 0 3 g;
             g = set_estimate ''factor'' (FloatValue 20 (- 1)) g;
             g = estimate ''output1'' ''x'' 0 1024 g;
             g = estimate ''output1'' ''y'' 0 1024 g;
             g = estimate ''output2'' ''x'' 0 1024 g;
             g = estimate ''output2'' ''y'' 0 1024 g;
             kParallelism = 32;
             kLastLevelCacheSize = 16 * 1024 * 1024;
             kBalance = 40;
             machine_params = \<lparr>parallelism = kParallelism,
                               last_level_cache_size = kLastLevelCacheSize,
                               balance = kBalance\<rparr>
         in auto_schedule_outputs machine_params g)
      else
        (let g = compute_root ''gray'' g;
             g = compute_root ''Iy'' g;
             g = compute_root ''Ix'' g
         in (None, g)))"


section \<open>The auto-scheduler's entry checks\<close>

text \<open>
  The auto-scheduler itself is not among the sources; the generators only call it. Its
  entry checks are written here from the specification's failure modes (4.4, 7, 8.5,
  8.7); the search that follows them is a parameter.
\<close>

definition required_estimates :: "pipeline \<Rightarrow> estimate_item list" where
  \<comment> \<open>Modelled from the spec: "Estimate values per Parameter/output dimension (required,
      no defaults)": one item for every scalar parameter, every dimension of every buffer
      or Func input, and every dimension of every pipeline output.\<close>
  "required_estimates p =
     map (\<lambda>(s, e). ScalarEstimate s) (scalars p) @
     concat (map (\<lambda>(b, ds). map (BufferDimEstimate b) [0..<length ds]) (buffers p)) @
     concat (map (\<lambda>f. map (FuncDimEstimate f) (args_of p f)) (func_inputs p @ outputs p))"

fun has_estimate :: "pipeline \<Rightarrow> estimate_item \<Rightarrow> bool" where
  \<comment> \<open>Modelled from the spec: whether the Estimate Store holds the item: a point value for
      a scalar, a bounds estimate for a dimension of a buffer or of a Func.\<close>
  "has_estimate p (ScalarEstimate s) =
     (case map_of (scalars p) s of Some (Some v) \<Rightarrow> True | _ \<Rightarrow> False)"
| "has_estimate p (BufferDimEstimate b d) =
     (case map_of (buffers p) b of
        Some ds \<Rightarrow> d < length ds \<and> ds ! d \<noteq> None
      | None \<Rightarrow> False)"
| "has_estimate p (FuncDimEstimate f v) =
     (case map_of (funcs p) f of
        Some s \<Rightarrow> v \<in> set (map fst (func_estimates s))
      | None \<Rightarrow> False)"

definition missing_estimates :: "pipeline \<Rightarrow> estimate_item list" where
  \<comment> \<open>Modelled from the spec: the required items that "lack a required Estimate", in
      the order of \<open>required_estimates\<close>.\<close>
  "missing_estimates p = filter (\<lambda>i. \<not> has_estimate p i) (required_estimates p)"

definition manually_scheduled :: "pipeline \<Rightarrow> string list" where
  \<comment> \<open>Modelled from the spec: the Stages that "already carry a manually authored
      ScheduleSpec": the Funcs to which some directive has been applied.\<close>
  "manually_scheduled p = map fst (filter (\<lambda>(n, s). func_directives s \<noteq> []) (funcs p))"

definition validate :: "pipeline \<Rightarrow> error option" where
  \<comment> \<open>Modelled from the spec: the two failure modes of 4.4, in the order it gives them.
      A manual schedule is looked for "before search begins" and makes the run fail with
      \<open>PartiallyScheduledPipelineError\<close> (8.5 makes no exception for it); otherwise a
      required estimate that is missing makes it fail with \<open>MissingEstimateError\<close>,
      which names the first missing item. The dependency graph handed over by the front
      end is "acyclic by construction" (9), so \<open>CyclicDefinitionError\<close> is not raised
      here.\<close>
  "validate p =
     (case manually_scheduled p of
        s # _ \<Rightarrow> Some (PartiallyScheduledPipelineError s)
      | [] \<Rightarrow>
         (case missing_estimates p of
            m # _ \<Rightarrow> Some (MissingEstimateError m)
          | [] \<Rightarrow> None))"

definition auto_schedule_outputs ::
  "(machine_params \<Rightarrow> pipeline \<Rightarrow> pipeline) \<Rightarrow> machine_params \<Rightarrow> pipeline
     \<Rightarrow> error option \<times> pipeline" where
  \<comment> \<open>Modelled from the spec: a failed check is reported to the caller and "mutates
      nothing"; otherwise the search (4.4, a parameter here) attaches the schedule.\<close>
  "auto_schedule_outputs search mp p =
     (case validate p of
        Some e \<Rightarrow> (Some e, p)
      | None \<Rightarrow> (None, search mp p))"

definition no_search :: "machine_params \<Rightarrow> pipeline \<Rightarrow> pipeline" where
  \<comment> \<open>An instance of the search parameter for concrete runs that stop at the entry
      checks: it is never reached there.\<close>
  "no_search mp p = p"


definition directives_of :: "pipeline \<Rightarrow> (string \<times> directive list) list" where
  \<comment> \<open>the schedule state of every Func: the directives applied to it so far\<close>
  "directives_of p = map (\<lambda>(n, s). (n, func_directives s)) (funcs p)"


text \<open>A pipeline that reaches the auto-scheduler in a state it rejects.\<close>

definition lesson_21_params :: machine_params where
  \<comment> \<open>the \<open>machine_params\<close> of lesson 21\<close>
  "lesson_21_params =
     \<lparr>parallelism = 32, last_level_cache_size = 16 * 1024 * 1024, balance = 40\<rparr>"

definition manually_scheduled_harris :: pipeline where
  \<comment> \<open>the lesson's pipeline after the else-branch of \<open>schedule()\<close>: \<open>gray\<close>, \<open>Iy\<close> and
      \<open>Ix\<close> are \<open>compute_root\<close>, no estimate has been given\<close>
  "manually_scheduled_harris =
     snd (AutoScheduled_schedule (auto_schedule_outputs no_search) False AutoScheduled_generator)"


section \<open>Region analysis\<close>









text \<open>
  Modelled from the spec: index expressions are affine (\<open>IAdd\<close>, \<open>ISub\<close>, \<open>IScale\<close> by a
  constant) or monotonic (\<open>IMin\<close>, \<open>IMax\<close>) in the variables, or data-dependent
  (\<open>IData\<close>); expressions have the five node kinds of 9; a Stage has a name, its named
  dimension variables and its defining expression. A reduction carries its inner domain
  \<open>(min, extent)\<close> and binds the next variable handle in its body.
\<close>

datatype index_expr =
    IVar nat
  | IConst int
  | IAdd index_expr index_expr
  | ISub index_expr index_expr
  | IScale int index_expr
  | IMin index_expr index_expr
  | IMax index_expr index_expr
  | IData nat

datatype arith_op = OpAdd | OpSub | OpMul | OpDiv

datatype expr =
    Constant int
  | ParamRef string
  | ProducerRef string "index_expr list"
  | ArithOp arith_op expr expr
  | Reduction int int expr

record stage =
  stage_name :: string
  stage_dims :: "string list"
  stage_definition :: expr














section \<open>SimpleBlur::generate\<close>

text \<open>
  The two stages that \<open>generate()\<close> defines, as expression trees. \<open>x\<close> and \<open>y\<close> are the
  handles 0 and 1; the implicit arguments behind \<open>_\<close> follow and are passed through
  unchanged. \<open>in\<close>, the input wrapped by \<open>BoundaryConditions::repeat_edge\<close>, is a producer
  known by name only.
\<close>

definition implicit_indices :: "var list \<Rightarrow> index_expr list" where
  "implicit_indices implicit = map IVar [2..<2 + length implicit]"

definition SimpleBlur_blur_x :: "var list \<Rightarrow> stage" where
  \<comment> \<open>\<open>blur_x(x, y, _) = (in(x, y, _) + in(x+1, y, _) + in(x+2, y, _))/3;\<close>\<close>
  "SimpleBlur_blur_x implicit =
     \<lparr>stage_name = ''blur_x'',
      stage_dims = ''x'' # ''y'' # implicit,
      stage_definition =
        ArithOp OpDiv
          (ArithOp OpAdd
             (ArithOp OpAdd
                (ProducerRef ''in'' ([IVar 0, IVar 1] @ implicit_indices implicit))
                (ProducerRef ''in'' ([IAdd (IVar 0) (IConst 1), IVar 1] @ implicit_indices implicit)))
             (ProducerRef ''in'' ([IAdd (IVar 0) (IConst 2), IVar 1] @ implicit_indices implicit)))
          (Constant 3)\<rparr>"











section \<open>Properties of the Harris generator\<close>

text \<open>
  C9. In the AutoScheduled generator, for every input image, every value of \<open>factor\<close> and
  every coordinate \<open>(x, y)\<close>, \<open>output2(x, y)\<close> is \<open>factor\<close> times \<open>output1(x, y)\<close>: both
  outputs sample \<open>harris(x + 2, y + 2)\<close>, and \<open>output2\<close> only scales that value by the
  scalar parameter. The product is the generator's own float multiplication, whatever
  its rounding.
\<close>

theorem output2_is_factor_times_output1:
  "output2 ops in_b factor x y = fmul ops factor (output1 ops in_b x y)
   \<and> output1 ops in_b x y = harris ops in_b (x + 2) (y + 2)"
  by (simp add: output1_def output2_def)


section \<open>Properties of SimpleBlur::schedule\<close>

lemma map_of_update_func:
  "map_of (funcs (update_func f h p)) n =
     (if n = f then map_option h (map_of (funcs p) f) else map_of (funcs p) n)"
proof -
  have "map_of (map (\<lambda>(n, s). if n = f then (n, h s) else (n, s)) xs) n =
        (if n = f then map_option h (map_of xs f) else map_of xs n)" for xs
    by (induction xs) auto
  then show ?thesis by (simp add: update_func_def)
qed

lemma directives_of_update_func:
  "(\<And>s. func_directives (h s) = func_directives s) \<Longrightarrow>
   directives_of (update_func f h p) = directives_of p"
  by (auto simp: directives_of_def update_func_def)

lemma directives_of_estimate [simp]: "directives_of (estimate f v mn ex p) = directives_of p"
  by (simp add: estimate_def directives_of_update_func)

lemma directives_of_set_estimate [simp]: "directives_of (set_estimate s v p) = directives_of p"
  by (simp add: set_estimate_def directives_of_def)

lemma update_func_twice:
  "update_func f h2 (update_func f h1 p) = update_func f (\<lambda>s. h2 (h1 s)) p"
  by (simp add: update_func_def comp_def case_prod_beta)

lemma update_func_same: "(\<And>s. h s = s) \<Longrightarrow> update_func f h p = p"
proof -
  assume "\<And>s. h s = s"
  then have "map (\<lambda>(n, s). if n = f then (n, h s) else (n, s)) xs = xs" for xs
    by (induction xs) auto
  then show ?thesis by (simp add: update_func_def)
qed

lemma args_of_update_func:
  "(\<And>s. func_args (h s) = func_args s) \<Longrightarrow> args_of (update_func f h p) n = args_of p n"
  by (auto simp: args_of_def map_of_update_func split: option.splits)

lemma fold_estimate_eq:
  "fold (\<lambda>i q. estimate f (args_of q f ! i) 0 c q) is p =
   update_func f (\<lambda>s. s\<lparr>func_estimates := func_estimates s @ map (\<lambda>i. (args_of p f ! i, 0, c)) is\<rparr>) p"
proof (induction "is" arbitrary: p)
  case Nil
  show ?case by (simp add: update_func_same)
next
  case (Cons i "is")
  show ?case
    by (simp add: Cons.IH) (simp add: estimate_def update_func_twice args_of_update_func)
qed

lemma drop_as_nths: "map (\<lambda>i. xs ! i) [k..<length xs] = drop k xs"
  by (rule nth_equalityI) auto

lemma estimate_rest_eq:
  "estimate_rest f c p =
   update_func f (\<lambda>s. s\<lparr>func_estimates := func_estimates s @ map (\<lambda>v. (v, 0, c)) (drop 2 (args_of p f))\<rparr>) p"
proof -
  have "map (\<lambda>i. (args_of p f ! i, 0, c)) [2..<length (args_of p f)] =
        map (\<lambda>v. (v, 0, c)) (map (\<lambda>i. args_of p f ! i) [2..<length (args_of p f)])"
    by simp
  also have "\<dots> = map (\<lambda>v. (v, 0, c)) (drop 2 (args_of p f))"
    by (simp only: drop_as_nths)
  finally have eq: "map (\<lambda>i. (args_of p f ! i, 0, c)) [2..<length (args_of p f)] =
        map (\<lambda>v. (v, 0, c)) (drop 2 (args_of p f))" .
  show ?thesis
    unfolding estimate_rest_def fold_estimate_eq eq by (rule refl)
qed

lemma directives_of_estimate_rest [simp]:
  "directives_of (estimate_rest f c p) = directives_of p"
  by (simp add: estimate_rest_eq directives_of_update_func)

text \<open>
  C10. When the SimpleBlur generator runs with \<open>estimate_only = true\<close> and
  \<open>auto_schedule = false\<close>, it records the bounds estimates for \<open>input\<close>, \<open>width\<close>,
  \<open>height\<close> and \<open>output\<close> and applies no scheduling directive: the result does not
  depend on \<open>auto_schedule_outputs\<close>, which is not called, the manual schedule of the
  else-branch is skipped, and every Func's directive list is what it was (empty on the
  freshly generated pipeline). The input is assumed to have the two arguments the
  source indexes.
\<close>

theorem estimate_only_applies_no_directive:
  assumes "2 \<le> length input_args"
  shows "SimpleBlur_schedule auto False True (SimpleBlur_generator input_args implicit) =
           (None,
            \<lparr>funcs = [(''input'',
                       \<lparr>func_args = input_args,
                        func_estimates = [(input_args ! 0, 0, 1536), (input_args ! 1, 0, 2560)] @
                                         map (\<lambda>v. (v, 0, 4)) (drop 2 input_args),
                        func_directives = []\<rparr>),
                      (''in'', new_func input_args),
                      (''blur_x'', new_func (''x'' # ''y'' # implicit)),
                      (''output'',
                       \<lparr>func_args = ''x'' # ''y'' # implicit,
                        func_estimates = [(''x'', 0, 1536), (''y'', 0, 2560)] @
                                         map (\<lambda>v. (v, 0, 4)) implicit,
                        func_directives = []\<rparr>)],
             buffers = [],
             scalars = [(''width'', Some (IntValue 1536)), (''height'', Some (IntValue 2560))],
             func_inputs = [''input''],
             outputs = [''output'']\<rparr>)
         \<and> directives_of (snd (SimpleBlur_schedule auto False True g)) = directives_of g"
proof
  show "directives_of (snd (SimpleBlur_schedule auto False True g)) = directives_of g"
    by (simp add: SimpleBlur_schedule_def Let_def)
next
  from assms show "SimpleBlur_schedule auto False True (SimpleBlur_generator input_args implicit) =
           (None,
            \<lparr>funcs = [(''input'',
                       \<lparr>func_args = input_args,
                        func_estimates = [(input_args ! 0, 0, 1536), (input_args ! 1, 0, 2560)] @
                                         map (\<lambda>v. (v, 0, 4)) (drop 2 input_args),
                        func_directives = []\<rparr>),
                      (''in'', new_func input_args),
                      (''blur_x'', new_func (''x'' # ''y'' # implicit)),
                      (''output'',
                       \<lparr>func_args = ''x'' # ''y'' # implicit,
                        func_estimates = [(''x'', 0, 1536), (''y'', 0, 2560)] @
                                         map (\<lambda>v. (v, 0, 4)) implicit,
                        func_directives = []\<rparr>)],
             buffers = [],
             scalars = [(''width'', Some (IntValue 1536)), (''height'', Some (IntValue 2560))],
             func_inputs = [''input''],
             outputs = [''output'']\<rparr>)"
    by (simp add: SimpleBlur_schedule_def Let_def estimate_rest_eq)
       (simp add: SimpleBlur_generator_def estimate_def set_estimate_def update_func_def
          args_of_def new_func_def)
qed

theorem estimate_only_applies_no_directive_witness:
  "2 \<le> length [''_0'', ''_1'', ''_2'']
   \<and> snd (SimpleBlur_schedule
            (auto_schedule_outputs no_search
               \<lparr>parallelism = 32, last_level_cache_size = 16384, balance = 40\<rparr>)
            False True
            (SimpleBlur_generator [''_0'', ''_1'', ''_2''] [''_0''])) =
       \<lparr>funcs = [(''input'',
                   \<lparr>func_args = [''_0'', ''_1'', ''_2''],
                    func_estimates = [(''_0'', 0, 1536), (''_1'', 0, 2560), (''_2'', 0, 4)],
                    func_directives = []\<rparr>),
                 (''in'', new_func [''_0'', ''_1'', ''_2'']),
                 (''blur_x'', new_func [''x'', ''y'', ''_0'']),
                 (''output'',
                   \<lparr>func_args = [''x'', ''y'', ''_0''],
                    func_estimates = [(''x'', 0, 1536), (''y'', 0, 2560), (''_0'', 0, 4)],
                    func_directives = []\<rparr>)],
         buffers = [],
         scalars = [(''width'', Some (IntValue 1536)), (''height'', Some (IntValue 2560))],
         func_inputs = [''input''],
         outputs = [''output'']\<rparr>"
  using estimate_only_applies_no_directive
          [of "[''_0'', ''_1'', ''_2'']" _ "[''_0'']"]
  by simp

section \<open>Properties of the auto-scheduler's entry checks\<close>

lemma manually_scheduled_iff:
  "f \<in> set (manually_scheduled p) \<longleftrightarrow>
     (\<exists>s. (f, s) \<in> set (funcs p) \<and> func_directives s \<noteq> [])"
  by (force simp: manually_scheduled_def)

lemma manually_scheduled_harris_names:
  "manually_scheduled manually_scheduled_harris = [''gray'', ''Iy'', ''Ix'']"
  by (simp add: manually_scheduled_harris_def AutoScheduled_schedule_def
        AutoScheduled_generator_def compute_root_def apply_directive_def update_func_def
        new_func_def manually_scheduled_def)

text \<open>
  C2. If any Stage of the pipeline already carries a manually authored schedule when
  auto-scheduling begins, the scheduler fails with \<open>PartiallyScheduledPipelineError\<close>,
  reported to the caller with the name of the first such Stage, and the pipeline it
  leaves behind is the pipeline it was given.
\<close>

theorem partially_scheduled_is_rejected_unchanged:
  assumes "(f, s) \<in> set (funcs p)" and "func_directives s \<noteq> []"
  shows "\<exists>n ns. manually_scheduled p = n # ns
           \<and> auto_schedule_outputs search mp p = (Some (PartiallyScheduledPipelineError n), p)"
proof -
  from assms have "f \<in> set (manually_scheduled p)"
    by (auto simp: manually_scheduled_iff)
  then obtain n ns where ms: "manually_scheduled p = n # ns"
    by (cases "manually_scheduled p") auto
  then have "auto_schedule_outputs search mp p = (Some (PartiallyScheduledPipelineError n), p)"
    by (simp add: auto_schedule_outputs_def validate_def)
  with ms show ?thesis by blast
qed

theorem partially_scheduled_is_rejected_unchanged_witness:
  "(''gray'', \<lparr>func_args = [''x'', ''y''], func_estimates = [], func_directives = [ComputeRoot]\<rparr>)
     \<in> set (funcs manually_scheduled_harris)
   \<and> auto_schedule_outputs no_search lesson_21_params manually_scheduled_harris =
       (Some (PartiallyScheduledPipelineError ''gray''), manually_scheduled_harris)"
proof -
  have e: "(''gray'', \<lparr>func_args = [''x'', ''y''], func_estimates = [],
                       func_directives = [ComputeRoot]\<rparr>)
       \<in> set (funcs manually_scheduled_harris)"
    by (simp add: manually_scheduled_harris_def AutoScheduled_schedule_def
          AutoScheduled_generator_def compute_root_def apply_directive_def update_func_def
          new_func_def)
  from partially_scheduled_is_rejected_unchanged [OF e, of no_search lesson_21_params]
  have "auto_schedule_outputs no_search lesson_21_params manually_scheduled_harris =
       (Some (PartiallyScheduledPipelineError ''gray''), manually_scheduled_harris)"
    by (simp add: manually_scheduled_harris_names)
  with e show ?thesis by simp
qed


section \<open>Properties of the region analysis\<close>

















end
